theory Spec2Isabelle
  imports Main "HOL-Library.Word" "HOL-Library.Log_Nat"
begin

section \<open>The task list component of \<open>src/TodoList.tsx\<close>\<close>

text \<open>
  The source file holds the component twice: an earlier version (lines 1 to 248) and the
  later, extended one (lines 248 to 791) with priorities, a task limit and an error state.
  The development below embeds the later version, which is the one the specification
  describes (limit with default 100, priority flag, batch of eight, error message).
  The functions of the earlier version that differ are embedded in the last section,
  under the source's names with the suffix \<open>_v1\<close>.

  React state is modelled by explicit state passing: the \<open>useState\<close> cells of the
  component are the fields of the record \<open>State\<close>, the props are the record \<open>Props\<close>, and
  every handler is a function from the state in which its event is handled to the next
  state. A handler's closure reads the state of the render in which the event is handled,
  and React re-renders between two user events, so the \<open>todos\<close> a handler reads and the
  \<open>prevTodos\<close> its updater receives are the same list.
\<close>

subsection \<open>Strings\<close>

text \<open>
  A JavaScript string is a sequence of 16-bit code units. \<open>utf16\<close> writes an ASCII literal.
  \<open>trim\<close> is \<open>String.prototype.trim\<close>: it strips the ECMAScript \<open>WhiteSpace\<close> and
  \<open>LineTerminator\<close> code points (all of them in the basic plane) from both ends.
\<close>

type_synonym jsstring = "16 word list"

definition utf16 :: "string \<Rightarrow> jsstring" where
  "utf16 s = map of_char s"

definition js_whitespace :: "16 word \<Rightarrow> bool" where
  "js_whitespace c \<longleftrightarrow>
     c = 0x0009 \<or> c = 0x000A \<or> c = 0x000B \<or> c = 0x000C \<or> c = 0x000D \<or> c = 0x0020 \<or>
     c = 0x00A0 \<or> c = 0x1680 \<or> (0x2000 \<le> c \<and> c \<le> 0x200A) \<or> c = 0x2028 \<or>
     c = 0x2029 \<or> c = 0x202F \<or> c = 0x205F \<or> c = 0x3000 \<or> c = 0xFEFF"

definition trim :: "jsstring \<Rightarrow> jsstring" where
  "trim s = rev (dropWhile js_whitespace (rev (dropWhile js_whitespace s)))"

subsection \<open>Data model\<close>

text \<open>
  \<open>interface Task\<close> (lines 251 to 258). The field \<open>id\<close> is named \<open>task_id\<close> here, since
  \<open>id\<close> is the identity function of HOL. Identifiers are the integers the code produces
  (\<open>Date.now()\<close> and the \<open>id\<close> of a fetched record); a \<open>Date\<close> is its time value in
  milliseconds; an optional field is an \<open>option\<close>.
\<close>

datatype priority = low | medium | high

record Task =
  task_id :: int
  titre :: jsstring
  isCompleted :: bool
  userId :: "int option"
  createdAt :: "int option"
  priority :: "priority option"

datatype FilterType = tous | active | termine | high_priority

text \<open>\<open>interface TodoListProps\<close> with the defaults of the destructuring (lines 275 to 279).\<close>

record Props =
  initialTasks :: "Task list"
  maxTodos :: int
  enablePriority :: bool

definition default_props :: Props where
  "default_props = \<lparr>initialTasks = [], maxTodos = 100, enablePriority = False\<rparr>"

text \<open>\<open>interface ApiResponse\<close> (lines 268 to 273): a record of the remote source.\<close>

record ApiResponse =
  api_id :: int
  title :: jsstring
  completed :: bool
  api_userId :: int

text \<open>The \<open>useState\<close> cells (lines 280 to 288).\<close>

record State =
  todos :: "Task list"
  inputValue :: jsstring
  filtre :: FilterType
  isLoading :: bool
  error :: jsstring
  lastUpdated :: int
  selectedPriority :: priority

text \<open>The state of the first render; \<open>now\<close> is the clock read by \<open>new Date()\<close>.\<close>

definition initial_state :: "Props \<Rightarrow> int \<Rightarrow> State" where
  "initial_state props now =
     \<lparr>todos = initialTasks props, inputValue = [], filtre = tous, isLoading = False,
      error = [], lastUpdated = now, selectedPriority = medium\<rparr>"

subsection \<open>Task store: the mutations\<close>

text \<open>
  \<open>ajouterTodo\<close> (lines 325 to 344). The three clock reads (\<open>Date.now()\<close> for the id,
  \<open>new Date()\<close> for \<open>createdAt\<close> and for \<open>lastUpdated\<close>) are the arguments \<open>now\<close>, \<open>created\<close>
  and \<open>updated\<close>. The \<open>alert\<close> of the limit branch changes no state; the branch returns
  the state as it is.
\<close>

definition ajouterTodo :: "Props \<Rightarrow> int \<Rightarrow> int \<Rightarrow> int \<Rightarrow> State \<Rightarrow> State" where
  "ajouterTodo props now created updated s =
     (if trim (inputValue s) \<noteq> [] then
        if int (length (todos s)) \<ge> maxTodos props then s
        else
          let newTask = \<lparr>task_id = now, titre = trim (inputValue s), isCompleted = False,
                         userId = None, createdAt = Some created,
                         priority = Some (if enablePriority props then selectedPriority s
                                          else medium)\<rparr>
          in s\<lparr>todos := todos s @ [newTask], inputValue := [], lastUpdated := updated\<rparr>
      else s)"

text \<open>\<open>toggleTask\<close> (lines 346 to 352).\<close>

definition toggleTask :: "int \<Rightarrow> State \<Rightarrow> State" where
  "toggleTask i s =
     s\<lparr>todos := map (\<lambda>todo. if task_id todo = i
                              then todo\<lparr>isCompleted := \<not> isCompleted todo\<rparr> else todo)
                    (todos s)\<rparr>"

text \<open>
  \<open>supprimerTask\<close> (lines 354 to 356) takes \<open>number | string\<close> and compares with the loose
  \<open>!=\<close>: a number is compared with a number as it is, and with a string through the
  string's numeric value. The conversion \<open>ToNumber\<close> of the language is the parameter
  \<open>toNumber\<close>, \<open>None\<close> where the string denotes no integer (so it equals no identifier).
\<close>

datatype ident = Num int | Str jsstring

definition loose_eq :: "(jsstring \<Rightarrow> int option) \<Rightarrow> int \<Rightarrow> ident \<Rightarrow> bool" where
  "loose_eq toNumber n i = (case i of Num m \<Rightarrow> n = m | Str str \<Rightarrow> toNumber str = Some n)"

definition supprimerTask :: "(jsstring \<Rightarrow> int option) \<Rightarrow> ident \<Rightarrow> State \<Rightarrow> State" where
  "supprimerTask toNumber i s =
     s\<lparr>todos := filter (\<lambda>todo. \<not> loose_eq toNumber (task_id todo) i) (todos s)\<rparr>"

text \<open>\<open>clearCompletedTodos\<close> (lines 404 to 406) and \<open>marquerToutCompleted\<close> (lines 408 to 412).\<close>

definition clearCompletedTodos :: "State \<Rightarrow> State" where
  "clearCompletedTodos s = s\<lparr>todos := filter (\<lambda>todo. \<not> isCompleted todo) (todos s)\<rparr>"

definition marquerToutCompleted :: "State \<Rightarrow> State" where
  "marquerToutCompleted s = s\<lparr>todos := map (\<lambda>todo. todo\<lparr>isCompleted := True\<rparr>) (todos s)\<rparr>"

subsection \<open>View filter\<close>

text \<open>
  \<open>filteredTodos\<close> (lines 358 to 376) is \<open>todos.filter(...).sort(...)\<close>. The callback of
  \<open>filter\<close> is the \<open>switch\<close> on \<open>filtre\<close>, the callback of \<open>sort\<close> is the comparator.
\<close>

definition filtre_predicate :: "FilterType \<Rightarrow> Task \<Rightarrow> bool" where
  "filtre_predicate f todo =
     (case f of
        termine \<Rightarrow> isCompleted todo
      | active \<Rightarrow> \<not> isCompleted todo
      | high_priority \<Rightarrow> priority todo = Some high \<and> \<not> isCompleted todo
      | tous \<Rightarrow> True)"

definition priority_comparator :: "Task \<Rightarrow> Task \<Rightarrow> int" where
  "priority_comparator a b =
     (if priority a = Some high \<and> priority b \<noteq> Some high then - 1
      else if priority b = Some high \<and> priority a \<noteq> Some high then 1
      else 0)"

text \<open>
  \<open>Array.prototype.sort\<close> with a consistent comparator returns the elements in ascending
  order of the comparator and is stable (ECMAScript 2019): elements that compare equal keep
  their order. For a consistent comparator this result is unique; it is computed here by
  insertion, each element going in front of the first later element it does not exceed.
\<close>

fun insert_by :: "('a \<Rightarrow> 'a \<Rightarrow> int) \<Rightarrow> 'a \<Rightarrow> 'a list \<Rightarrow> 'a list" where
  "insert_by cmp x [] = [x]"
| "insert_by cmp x (y # ys) =
     (if cmp x y \<le> 0 then x # y # ys else y # insert_by cmp x ys)"

fun sort_by :: "('a \<Rightarrow> 'a \<Rightarrow> int) \<Rightarrow> 'a list \<Rightarrow> 'a list" where
  "sort_by cmp [] = []"
| "sort_by cmp (x # xs) = insert_by cmp x (sort_by cmp xs)"

definition is_high :: "Task \<Rightarrow> bool" where
  "is_high todo \<longleftrightarrow> priority todo = Some high"

definition filteredTodos :: "Task list \<Rightarrow> FilterType \<Rightarrow> Task list" where
  "filteredTodos ts f = sort_by priority_comparator (filter (filtre_predicate f) ts)"

subsection \<open>The view on a heap of arrays\<close>

text \<open>
  \<open>filter\<close> returns a new array and \<open>sort\<close> sorts its receiver in place. To state what the
  view computation writes, arrays and task objects live in a heap: an array is a list of
  object references, a reference is an index into \<open>objects\<close>, an array address an index
  into \<open>arrays\<close>, and allocation appends.
\<close>

record Heap =
  objects :: "Task list"
  arrays :: "nat list list"

definition deref :: "Heap \<Rightarrow> nat \<Rightarrow> Task list" where
  "deref h a = map (\<lambda>r. objects h ! r) (arrays h ! a)"

definition Array_filter :: "(Task \<Rightarrow> bool) \<Rightarrow> nat \<Rightarrow> Heap \<Rightarrow> nat \<times> Heap" where
  "Array_filter p a h =
     (length (arrays h),
      h\<lparr>arrays := arrays h @ [filter (\<lambda>r. p (objects h ! r)) (arrays h ! a)]\<rparr>)"

definition Array_sort :: "(Task \<Rightarrow> Task \<Rightarrow> int) \<Rightarrow> nat \<Rightarrow> Heap \<Rightarrow> nat \<times> Heap" where
  "Array_sort cmp a h =
     (a, h\<lparr>arrays := (arrays h)[a := sort_by (\<lambda>r1 r2. cmp (objects h ! r1) (objects h ! r2))
                                        (arrays h ! a)]\<rparr>)"

definition filteredTodos_heap :: "FilterType \<Rightarrow> nat \<Rightarrow> Heap \<Rightarrow> nat \<times> Heap" where
  "filteredTodos_heap f a h =
     (let (b, h1) = Array_filter (filtre_predicate f) a h
      in Array_sort priority_comparator b h1)"

subsection \<open>Numbers and the progress text\<close>

text \<open>
  A \<open>number\<close> is an IEEE 754 binary64 value. Only values that are not negative arise
  in the progress computation, so a number is a rational that is not negative, \<open>NaN\<close> or
  \<open>Infinity\<close>. \<open>binary64\<close> rounds a positive rational in the normal range to the nearest
  value with a 53-bit significand, ties to even, as every arithmetic operation of the
  language does with its exact result.
\<close>

datatype number = Finite rat | NaN | Infinity

definition floor_log2 :: "rat \<Rightarrow> int" where
  "floor_log2 x =
     (let (a, b) = quotient_of x; d = bitlen a - bitlen b
      in if 2 powi d \<le> x then d else d - 1)"

definition round_half_even :: "rat \<Rightarrow> int" where
  "round_half_even x =
     (let f = \<lfloor>x\<rfloor>; r = x - of_int f
      in if r < 1 / 2 then f else if 1 / 2 < r then f + 1 else if even f then f else f + 1)"

definition binary64 :: "rat \<Rightarrow> rat" where
  "binary64 x =
     (if x = 0 then 0
      else let e = floor_log2 x - 52
           in of_int (round_half_even (x * 2 powi (- e))) * 2 powi e)"

text \<open>The quotient of two array lengths, and the product of two numbers.\<close>

definition js_div :: "nat \<Rightarrow> nat \<Rightarrow> number" where
  "js_div a b =
     (if b = 0 then (if a = 0 then NaN else Infinity)
      else Finite (binary64 (of_nat a / of_nat b)))"

fun js_mul :: "number \<Rightarrow> number \<Rightarrow> number" where
  "js_mul (Finite x) (Finite y) = Finite (binary64 (x * y))"
| "js_mul NaN y = NaN"
| "js_mul x NaN = NaN"
| "js_mul Infinity (Finite y) = (if y = 0 then NaN else Infinity)"
| "js_mul (Finite x) Infinity = (if x = 0 then NaN else Infinity)"
| "js_mul Infinity Infinity = Infinity"

text \<open>
  \<open>Math.round\<close> gives the integer nearest to its argument, the larger one at a tie.
  Its results are the numbers \<open>rounded\<close>, which the template literal writes in decimal.
\<close>

datatype rounded = Integer int | RoundedNaN | RoundedInfinity

fun Math_round :: "number \<Rightarrow> rounded" where
  "Math_round (Finite x) = Integer \<lfloor>x + 1 / 2\<rfloor>"
| "Math_round NaN = RoundedNaN"
| "Math_round Infinity = RoundedInfinity"

fun decimal :: "nat \<Rightarrow> jsstring" where
  "decimal n =
     (if n < 10 then [of_nat (48 + n)] else decimal (n div 10) @ [of_nat (48 + n mod 10)])"

declare decimal.simps [simp del]

fun toString :: "rounded \<Rightarrow> jsstring" where
  "toString (Integer i) = (if i < 0 then utf16 ''-'' @ decimal (nat (- i)) else decimal (nat i))"
| "toString RoundedNaN = utf16 ''NaN''"
| "toString RoundedInfinity = utf16 ''Infinity''"

text \<open>\<open>remainingTasks\<close>, \<open>completedTasks\<close> (lines 388 to 391), \<open>calculerProgress\<close> (398 to 402).\<close>

definition remainingTasks :: "Task list \<Rightarrow> nat" where
  "remainingTasks ts = length (filter (\<lambda>todo. \<not> isCompleted todo) ts)"

definition completedTasks :: "Task list \<Rightarrow> nat" where
  "completedTasks ts = length ts - remainingTasks ts"

definition calculerProgress :: "Task list \<Rightarrow> jsstring" where
  "calculerProgress ts =
     (if length ts = 0 then utf16 ''0%''
      else toString (Math_round (js_mul (js_div (completedTasks ts) (length ts)) (Finite 100)))
           @ utf16 ''%'')"

subsection \<open>Remote loader\<close>

text \<open>
  The effect of lines 290 to 323. \<open>fetchTodos\<close> is asynchronous: \<open>fetchTodos_start\<close> is
  what it does before the first \<open>await\<close>, and \<open>fetchTodos_settle\<close> is its continuation once
  the request has an outcome. Other handlers may run in between, so the continuation
  takes the state of that later moment; \<open>initialTasks\<close> is the prop its closure holds.

  The outcome of \<open>await fetch(...)\<close>, \<open>await response.json()\<close> and \<open>data.map\<close> is an error
  (\<open>NetworkError\<close>: the request promise rejects; \<open>MalformedResponse\<close>: the body is not JSON,
  the parsed value is not an array, or an element of it is \<open>null\<close>, so that \<open>json\<close>, \<open>map\<close>
  or its callback raises) or the list of records, taken at their declared type
  \<open>ApiResponse\<close>. The code reads neither the status of the response nor the types of the
  fields: a response that raises nothing counts as a success.
\<close>

datatype fetch_error = NetworkError | MalformedResponse

definition priority_of_index :: "nat \<Rightarrow> priority" where
  "priority_of_index index =
     (if index mod 3 = 0 then high else if index mod 2 = 0 then medium else low)"

text \<open>The callback of \<open>data.map\<close>; \<open>clock index\<close> is the \<open>new Date()\<close> read for that item.\<close>

definition apiTask :: "(nat \<Rightarrow> int) \<Rightarrow> ApiResponse \<Rightarrow> nat \<Rightarrow> Task" where
  "apiTask clock item index =
     \<lparr>task_id = api_id item, titre = title item, isCompleted = completed item,
      userId = Some (api_userId item), createdAt = Some (clock index),
      priority = Some (priority_of_index index)\<rparr>"

definition apiTasks :: "(nat \<Rightarrow> int) \<Rightarrow> ApiResponse list \<Rightarrow> Task list" where
  "apiTasks clock data = map (\<lambda>(item, index). apiTask clock item index)
                             (zip data [0..<length data])"

definition fetchTodos_start :: "State \<Rightarrow> State" where
  "fetchTodos_start s = s\<lparr>isLoading := True, error := []\<rparr>"

definition try_block ::
  "Props \<Rightarrow> (nat \<Rightarrow> int) \<Rightarrow> fetch_error + ApiResponse list \<Rightarrow> State \<Rightarrow> fetch_error + State" where
  "try_block props clock outcome s =
     (case outcome of
        Inl err \<Rightarrow> Inl err
      | Inr data \<Rightarrow> Inr (s\<lparr>todos := initialTasks props @ apiTasks clock data\<rparr>))"

definition catch_block :: "fetch_error \<Rightarrow> State \<Rightarrow> fetch_error + State" where
  "catch_block err s = Inr (s\<lparr>error := utf16 ''Erreur lors du chargement''\<rparr>)"

definition finally_block :: "State \<Rightarrow> State" where
  "finally_block s = s\<lparr>isLoading := False\<rparr>"

text \<open>
  \<open>try\<close>, \<open>catch\<close>, \<open>finally\<close>: an error of the \<open>try\<close> block goes to the \<open>catch\<close> block with
  the state as the \<open>try\<close> block found it (its only write is its last statement); the
  \<open>finally\<close> block runs in both cases. The result is \<open>Inl\<close> when the promise of
  \<open>fetchTodos\<close> rejects, that is when an error leaves the function.
\<close>

definition fetchTodos_settle ::
  "Props \<Rightarrow> (nat \<Rightarrow> int) \<Rightarrow> fetch_error + ApiResponse list \<Rightarrow> State \<Rightarrow> fetch_error + State" where
  "fetchTodos_settle props clock outcome s =
     (case (case try_block props clock outcome s of
              Inl err \<Rightarrow> catch_block err s
            | Inr s' \<Rightarrow> Inr s') of
        Inl err \<Rightarrow> Inl err
      | Inr s' \<Rightarrow> Inr (finally_block s'))"








text \<open>The body of the effect: the fetch starts only without initial tasks.\<close>

definition useEffect :: "Props \<Rightarrow> State \<Rightarrow> State" where
  "useEffect props s = (if length (initialTasks props) = 0 then fetchTodos_start s else s)"

subsection \<open>The component as a state machine\<close>

text \<open>
  The events the component handles after its first render: the form controls, the
  mutations of the task store, and the settling of the request. \<open>Type\<close> is the \<open>onChange\<close>
  of the text input, \<open>Select\<close> that of the priority control, \<open>Dismiss\<close> the button of the
  error message.
\<close>

datatype Event =
    Type jsstring
  | Select priority
  | Add int int int
  | Toggle int
  | Remove ident
  | ClearCompleted
  | CompleteAll
  | ChangeFilter FilterType
  | Dismiss
  | Settle "nat \<Rightarrow> int" "fetch_error + ApiResponse list"

fun step :: "Props \<Rightarrow> (jsstring \<Rightarrow> int option) \<Rightarrow> State \<Rightarrow> Event \<Rightarrow> State" where
  "step props toNumber s (Type str) = s\<lparr>inputValue := str\<rparr>"
| "step props toNumber s (Select p) = s\<lparr>selectedPriority := p\<rparr>"
| "step props toNumber s (Add now created updated) = ajouterTodo props now created updated s"
| "step props toNumber s (Toggle i) = toggleTask i s"
| "step props toNumber s (Remove i) = supprimerTask toNumber i s"
| "step props toNumber s ClearCompleted = clearCompletedTodos s"
| "step props toNumber s CompleteAll = marquerToutCompleted s"
| "step props toNumber s (ChangeFilter f) = s\<lparr>filtre := f\<rparr>"
| "step props toNumber s Dismiss = s\<lparr>error := []\<rparr>"
| "step props toNumber s (Settle clock outcome) =
     (case fetchTodos_settle props clock outcome s of Inl err \<Rightarrow> s | Inr s' \<Rightarrow> s')"

definition run :: "Props \<Rightarrow> (jsstring \<Rightarrow> int option) \<Rightarrow> State \<Rightarrow> Event list \<Rightarrow> State" where
  "run props toNumber s evs = foldl (step props toNumber) s evs"

definition mounted :: "Props \<Rightarrow> int \<Rightarrow> State" where
  "mounted props now = useEffect props (initial_state props now)"

definition ids :: "State \<Rightarrow> int list" where
  "ids s = map task_id (todos s)"

text \<open>
  An event brings no identifier that is already taken: the clock value of an \<open>Add\<close> is
  the id of no task of the store, and the records of a settled request have ids that
  differ from each other and from those of the initial tasks, which differ as well.
\<close>

fun fresh_event :: "Props \<Rightarrow> State \<Rightarrow> Event \<Rightarrow> bool" where
  "fresh_event props s (Add now created updated) = (now \<notin> set (ids s))"
| "fresh_event props s (Settle clock (Inr data)) =
     distinct (map task_id (initialTasks props) @ map api_id data)"
| "fresh_event props s ev = True"

fun fresh_events :: "Props \<Rightarrow> (jsstring \<Rightarrow> int option) \<Rightarrow> State \<Rightarrow> Event list \<Rightarrow> bool" where
  "fresh_events props toNumber s [] = True"
| "fresh_events props toNumber s (ev # evs) =
     (fresh_event props s ev \<and> fresh_events props toNumber (step props toNumber s ev) evs)"

subsection \<open>The earlier version of the component\<close>

text \<open>
  Lines 1 to 248 of the source hold an earlier version of the component, without
  priorities, limit and error state. Its functions that differ from the later ones:
  \<open>ajouterTodo\<close> (lines 44 to 54) has no limit and stores the input untrimmed;
  \<open>supprimerTask\<close> (lines 64 to 66) compares with the strict \<open>!==\<close>, which no string
  satisfies against a number; \<open>calculerProgress\<close> (lines 93 to 96) has no guard for the
  empty list; the effect (lines 26 to 41) has no \<open>catch\<close>, fetches whatever the initial
  tasks are, and replaces the list. The fields this version does not have stay \<open>None\<close>.
\<close>

definition ajouterTodo_v1 :: "int \<Rightarrow> State \<Rightarrow> State" where
  "ajouterTodo_v1 now s =
     (if trim (inputValue s) \<noteq> [] then
        let newTask = \<lparr>task_id = now, titre = inputValue s, isCompleted = False,
                       userId = None, createdAt = None, priority = None\<rparr>
        in s\<lparr>todos := todos s @ [newTask], inputValue := []\<rparr>
      else s)"

definition strict_eq :: "int \<Rightarrow> ident \<Rightarrow> bool" where
  "strict_eq n i = (case i of Num m \<Rightarrow> n = m | Str str \<Rightarrow> False)"

definition supprimerTask_v1 :: "ident \<Rightarrow> State \<Rightarrow> State" where
  "supprimerTask_v1 i s = s\<lparr>todos := filter (\<lambda>todo. \<not> strict_eq (task_id todo) i) (todos s)\<rparr>"

definition calculerProgress_v1 :: "Task list \<Rightarrow> jsstring" where
  "calculerProgress_v1 ts =
     toString (Math_round (js_mul (js_div (length ts - remainingTasks ts) (length ts))
                                  (Finite 100)))
     @ utf16 ''%''"

definition apiTask_v1 :: "ApiResponse \<Rightarrow> Task" where
  "apiTask_v1 item =
     \<lparr>task_id = api_id item, titre = title item, isCompleted = completed item,
      userId = Some (api_userId item), createdAt = None, priority = None\<rparr>"

definition useEffect_start_v1 :: "State \<Rightarrow> State" where
  "useEffect_start_v1 s = s\<lparr>isLoading := True\<rparr>"

definition useEffect_settle_v1 :: "fetch_error + ApiResponse list \<Rightarrow> State \<Rightarrow> fetch_error + State" where
  "useEffect_settle_v1 outcome s =
     (case outcome of
        Inl err \<Rightarrow> Inl err
      | Inr data \<Rightarrow> Inr (s\<lparr>todos := map apiTask_v1 data, isLoading := False\<rparr>))"

text \<open>Example values used by the concrete instances below.\<close>

definition task1 :: Task where
  "task1 = \<lparr>task_id = 1, titre = utf16 ''Buy milk'', isCompleted = False, userId = None,
            createdAt = Some 1000, priority = Some medium\<rparr>"

definition task2 :: Task where
  "task2 = \<lparr>task_id = 2, titre = utf16 ''Call'', isCompleted = True, userId = Some 7,
            createdAt = Some 2000, priority = Some high\<rparr>"

definition state12 :: State where
  "state12 = \<lparr>todos = [task1, task2], inputValue = utf16 '' tea '', filtre = tous,
              isLoading = False, error = [], lastUpdated = 0, selectedPriority = low\<rparr>"

definition task3 :: Task where
  "task3 = \<lparr>task_id = 3, titre = utf16 ''Pay rent'', isCompleted = False, userId = None,
            createdAt = Some 3000, priority = Some high\<rparr>"

definition heap123 :: Heap where
  "heap123 = \<lparr>objects = [task1, task2, task3], arrays = [[0, 1, 2]]\<rparr>"

definition record1 :: ApiResponse where
  "record1 = \<lparr>api_id = 1, title = utf16 ''delectus aut autem'', completed = False,
              api_userId = 1\<rparr>"

definition record2 :: ApiResponse where
  "record2 = \<lparr>api_id = 2, title = utf16 ''quis ut nam'', completed = True, api_userId = 1\<rparr>"



definition pending1 :: State where
  "pending1 = \<lparr>todos = [task1], inputValue = [], filtre = tous, isLoading = True,
               error = [], lastUpdated = 0, selectedPriority = medium\<rparr>"

definition props_dup :: Props where
  "props_dup = \<lparr>initialTasks = [task1, task1], maxTodos = 100, enablePriority = False\<rparr>"

definition props1 :: Props where
  "props1 = \<lparr>initialTasks = [task1], maxTodos = 100, enablePriority = False\<rparr>"

definition tasks40 :: "Task list" where
  "tasks40 = replicate 23 task2 @ replicate 17 task1"

section \<open>Properties of the task store\<close>

text \<open>
  Claim C7. Toggling the same identifier twice gives back the state before the first
  toggle, and a toggle whose identifier matches no task leaves the state as it is.
\<close>

theorem toggleTask_twice_and_unknown:
  "toggleTask i (toggleTask i s) = s \<and>
   ((\<forall>t \<in> set (todos s). task_id t \<noteq> i) \<longrightarrow> toggleTask i s = s)"
proof
  have "map ((\<lambda>todo. if task_id todo = i then todo\<lparr>isCompleted := \<not> isCompleted todo\<rparr>
                      else todo) \<circ>
             (\<lambda>todo. if task_id todo = i then todo\<lparr>isCompleted := \<not> isCompleted todo\<rparr>
                      else todo)) (todos s) = todos s"
    by (rule map_idI) simp
  then show "toggleTask i (toggleTask i s) = s"
    by (simp add: toggleTask_def)
next
  show "(\<forall>t \<in> set (todos s). task_id t \<noteq> i) \<longrightarrow> toggleTask i s = s"
  proof
    assume none: "\<forall>t \<in> set (todos s). task_id t \<noteq> i"
    have "map (\<lambda>todo. if task_id todo = i then todo\<lparr>isCompleted := \<not> isCompleted todo\<rparr>
                      else todo) (todos s) = todos s"
      by (rule map_idI) (simp add: none)
    then show "toggleTask i s = s"
      by (simp add: toggleTask_def)
  qed
qed

theorem toggleTask_twice_and_unknown_witness:
  "todos state12 = [task1, task2] \<and> task_id task1 \<noteq> 5 \<and> task_id task2 \<noteq> 5 \<and>
   toggleTask 5 state12 = state12 \<and>
   toggleTask 2 state12 \<noteq> state12 \<and>
   toggleTask 2 (toggleTask 2 state12) = state12"
proof -
  have none: "\<forall>t \<in> set (todos state12). task_id t \<noteq> 5"
    by (simp add: state12_def task1_def task2_def)
  have changed: "toggleTask 2 state12 \<noteq> state12"
    by (simp add: toggleTask_def state12_def task1_def task2_def)
  from toggleTask_twice_and_unknown [of 5 state12] none
  have "toggleTask 5 state12 = state12" by blast
  with changed toggleTask_twice_and_unknown [of 2 state12]
  show ?thesis by (simp add: state12_def task1_def task2_def)
qed

lemma loose_eq_Num [simp]: "loose_eq toNumber n (Num m) \<longleftrightarrow> n = m"
  by (simp add: loose_eq_def)

text \<open>
  Claim C6. \<open>supprimerTask\<close> keeps exactly the tasks whose id does not equal the given
  identifier, in their order; no task that remains matches; with no matching task the
  state is unchanged; and removing the same identifier a second time changes nothing.
\<close>

theorem supprimerTask_removes_and_idempotent:
  "todos (supprimerTask toNumber i s) =
     filter (\<lambda>t. \<not> loose_eq toNumber (task_id t) i) (todos s) \<and>
   (\<forall>t \<in> set (todos (supprimerTask toNumber i s)). \<not> loose_eq toNumber (task_id t) i) \<and>
   ((\<forall>t \<in> set (todos s). \<not> loose_eq toNumber (task_id t) i) \<longrightarrow>
      supprimerTask toNumber i s = s) \<and>
   supprimerTask toNumber i (supprimerTask toNumber i s) = supprimerTask toNumber i s"
proof (intro conjI)
  show "todos (supprimerTask toNumber i s) =
          filter (\<lambda>t. \<not> loose_eq toNumber (task_id t) i) (todos s)"
    by (simp add: supprimerTask_def)
  show "\<forall>t \<in> set (todos (supprimerTask toNumber i s)). \<not> loose_eq toNumber (task_id t) i"
    by (simp add: supprimerTask_def)
  show "(\<forall>t \<in> set (todos s). \<not> loose_eq toNumber (task_id t) i) \<longrightarrow>
          supprimerTask toNumber i s = s"
  proof
    assume "\<forall>t \<in> set (todos s). \<not> loose_eq toNumber (task_id t) i"
    then have "filter (\<lambda>t. \<not> loose_eq toNumber (task_id t) i) (todos s) = todos s"
      by (simp add: filter_id_conv)
    then show "supprimerTask toNumber i s = s"
      by (simp add: supprimerTask_def)
  qed
  show "supprimerTask toNumber i (supprimerTask toNumber i s) = supprimerTask toNumber i s"
    by (simp add: supprimerTask_def)
qed

theorem supprimerTask_removes_and_idempotent_witness:
  "todos (supprimerTask (\<lambda>str. None) (Num 2) state12) = [task1] \<and>
   supprimerTask (\<lambda>str. None) (Num 2) (supprimerTask (\<lambda>str. None) (Num 2) state12) =
     supprimerTask (\<lambda>str. None) (Num 2) state12 \<and>
   task_id task1 \<noteq> 5 \<and> task_id task2 \<noteq> 5 \<and>
   supprimerTask (\<lambda>str. None) (Num 5) state12 = state12 \<and>
   supprimerTask (\<lambda>str. if str = utf16 ''2'' then Some 2 else None) (Str (utf16 ''2'')) state12
     = state12\<lparr>todos := [task1]\<rparr>"
proof -
  have none: "\<forall>t \<in> set (todos state12). \<not> loose_eq (\<lambda>str. None) (task_id t) (Num 5)"
    by (simp add: state12_def task1_def task2_def)
  have str: "supprimerTask (\<lambda>str. if str = utf16 ''2'' then Some 2 else None)
               (Str (utf16 ''2'')) state12 = state12\<lparr>todos := [task1]\<rparr>"
    by (simp add: supprimerTask_def loose_eq_def state12_def task1_def task2_def)
  from supprimerTask_removes_and_idempotent [of "\<lambda>str. None" "Num 5" state12] none
  have "supprimerTask (\<lambda>str. None) (Num 5) state12 = state12" by blast
  with str supprimerTask_removes_and_idempotent [of "\<lambda>str. None" "Num 2" state12]
  show ?thesis by (simp add: state12_def task1_def task2_def)
qed

text \<open>
  Claim C1. \<open>ajouterTodo\<close> returns the state as it is when the trimmed input is empty or
  the number of tasks has reached \<open>maxTodos\<close>; otherwise it appends exactly one task, not
  completed, titled with the trimmed input, so the length grows by exactly one.
\<close>

theorem ajouterTodo_rejects_or_appends_one:
  "(trim (inputValue s) = [] \<or> maxTodos props \<le> int (length (todos s)) \<longrightarrow>
      ajouterTodo props now created updated s = s) \<and>
   (trim (inputValue s) \<noteq> [] \<and> int (length (todos s)) < maxTodos props \<longrightarrow>
      (\<exists>t. todos (ajouterTodo props now created updated s) = todos s @ [t] \<and>
           isCompleted t = False \<and> task_id t = now \<and> titre t = trim (inputValue s)) \<and>
      length (todos (ajouterTodo props now created updated s)) = length (todos s) + 1)"
proof (intro conjI impI)
  assume "trim (inputValue s) = [] \<or> maxTodos props \<le> int (length (todos s))"
  then show "ajouterTodo props now created updated s = s"
    by (auto simp add: ajouterTodo_def)
next
  assume ok: "trim (inputValue s) \<noteq> [] \<and> int (length (todos s)) < maxTodos props"
  define t where "t = \<lparr>task_id = now, titre = trim (inputValue s), isCompleted = False,
                         userId = None, createdAt = Some created,
                         priority = Some (if enablePriority props then selectedPriority s
                                          else medium)\<rparr>"
  from ok have appended: "todos (ajouterTodo props now created updated s) = todos s @ [t]"
    by (simp add: ajouterTodo_def t_def)
  moreover have "isCompleted t = False \<and> task_id t = now \<and> titre t = trim (inputValue s)"
    by (simp add: t_def)
  ultimately show "\<exists>t. todos (ajouterTodo props now created updated s) = todos s @ [t] \<and>
           isCompleted t = False \<and> task_id t = now \<and> titre t = trim (inputValue s)"
    by blast
  from appended show
    "length (todos (ajouterTodo props now created updated s)) = length (todos s) + 1"
    by simp
qed

lemma trim_tea: "trim (utf16 '' tea '') = utf16 ''tea''"
  by (simp add: trim_def utf16_def js_whitespace_def)

lemma trim_blank: "trim (utf16 ''  '') = []"
  by (simp add: trim_def utf16_def js_whitespace_def)

theorem ajouterTodo_rejects_or_appends_one_witness:
  "trim (inputValue state12) \<noteq> [] \<and> int (length (todos state12)) < 3 \<and>
   todos (ajouterTodo (default_props\<lparr>maxTodos := 3\<rparr>) 1700 1701 1702 state12) =
     [task1, task2,
      \<lparr>task_id = 1700, titre = utf16 ''tea'', isCompleted = False, userId = None,
       createdAt = Some 1701, priority = Some medium\<rparr>] \<and>
   length (todos (ajouterTodo (default_props\<lparr>maxTodos := 3\<rparr>) 1700 1701 1702 state12)) = 3 \<and>
   (2::int) \<le> int (length (todos state12)) \<and>
   ajouterTodo (default_props\<lparr>maxTodos := 2\<rparr>) 1700 1701 1702 state12 = state12 \<and>
   trim (inputValue (state12\<lparr>inputValue := utf16 ''  ''\<rparr>)) = [] \<and>
   ajouterTodo default_props 1700 1701 1702 (state12\<lparr>inputValue := utf16 ''  ''\<rparr>) =
     state12\<lparr>inputValue := utf16 ''  ''\<rparr>"
proof -
  have a: "trim (inputValue state12) \<noteq> [] \<and> int (length (todos state12)) < 3"
    by (simp add: state12_def trim_tea) (simp add: utf16_def)
  have b: "(2::int) \<le> int (length (todos state12))"
    by (simp add: state12_def)
  have c: "trim (inputValue (state12\<lparr>inputValue := utf16 ''  ''\<rparr>)) = []"
    by (simp add: trim_blank)
  have d: "todos (ajouterTodo (default_props\<lparr>maxTodos := 3\<rparr>) 1700 1701 1702 state12) =
     [task1, task2,
      \<lparr>task_id = 1700, titre = utf16 ''tea'', isCompleted = False, userId = None,
       createdAt = Some 1701, priority = Some medium\<rparr>]"
    using a by (simp add: ajouterTodo_def default_props_def)
                (simp add: state12_def trim_tea)
  from ajouterTodo_rejects_or_appends_one
         [of state12 "default_props\<lparr>maxTodos := 3\<rparr>" 1700 1701 1702] a
  have e: "length (todos (ajouterTodo (default_props\<lparr>maxTodos := 3\<rparr>) 1700 1701 1702 state12))
             = 3"
    by (simp add: state12_def)
  from ajouterTodo_rejects_or_appends_one
         [of state12 "default_props\<lparr>maxTodos := 2\<rparr>" 1700 1701 1702] b
  have f: "ajouterTodo (default_props\<lparr>maxTodos := 2\<rparr>) 1700 1701 1702 state12 = state12"
    by simp
  from ajouterTodo_rejects_or_appends_one
         [of "state12\<lparr>inputValue := utf16 ''  ''\<rparr>" default_props 1700 1701 1702] c
  have g: "ajouterTodo default_props 1700 1701 1702 (state12\<lparr>inputValue := utf16 ''  ''\<rparr>) =
     state12\<lparr>inputValue := utf16 ''  ''\<rparr>"
    by blast
  from a b c d e f g show ?thesis by blast
qed


section \<open>Properties of the view filter\<close>

text \<open>The comparator is consistent: it orders the tasks in two classes.\<close>

lemma cmp_refl: "priority_comparator a a = 0"
  by (simp add: priority_comparator_def)

lemma cmp_antisym: "priority_comparator a b = - priority_comparator b a"
  by (cases "priority a = Some high"; cases "priority b = Some high")
     (simp_all add: priority_comparator_def)

lemma cmp_trans:
  "priority_comparator a b \<le> 0 \<Longrightarrow> priority_comparator b c \<le> 0 \<Longrightarrow> priority_comparator a c \<le> 0"
  by (cases "priority a = Some high"; cases "priority b = Some high";
      cases "priority c = Some high")
     (simp_all add: priority_comparator_def)

lemma insert_by_high:
  "is_high x \<Longrightarrow> insert_by priority_comparator x ys = x # ys"
  by (cases ys) (simp_all add: priority_comparator_def is_high_def)

lemma insert_by_not_high:
  "\<not> is_high x \<Longrightarrow> list_all is_high hs \<Longrightarrow> list_all (\<lambda>t. \<not> is_high t) ls \<Longrightarrow>
   insert_by priority_comparator x (hs @ ls) = hs @ x # ls"
proof (induction hs)
  case Nil
  then show ?case by (cases ls) (simp_all add: priority_comparator_def is_high_def)
next
  case (Cons h hs)
  then show ?case by (simp add: priority_comparator_def is_high_def)
qed

lemma sort_by_priority_partition:
  "sort_by priority_comparator ts = filter is_high ts @ filter (\<lambda>t. \<not> is_high t) ts"
proof (induction ts)
  case Nil
  show ?case by simp
next
  case (Cons t ts)
  show ?case
  proof (cases "is_high t")
    case True
    then show ?thesis by (simp add: Cons.IH insert_by_high)
  next
    case False
    have "insert_by priority_comparator t (filter is_high ts @ filter (\<lambda>t. \<not> is_high t) ts)
          = filter is_high ts @ t # filter (\<lambda>t. \<not> is_high t) ts"
      using False by (intro insert_by_not_high) (simp_all add: list_all_iff)
    with False show ?thesis by (simp add: Cons.IH)
  qed
qed

text \<open>
  The model of \<open>sort\<close> does not depend on the sorting algorithm: the result is in
  ascending order of the comparator, and any arrangement in ascending order that keeps
  the order inside both classes is this result.
\<close>

lemma sorted_by_priority_is_partition:
  "sorted_wrt (\<lambda>a b. priority_comparator a b \<le> 0) ys \<Longrightarrow>
   ys = filter is_high ys @ filter (\<lambda>t. \<not> is_high t) ys"
proof (induction ys)
  case Nil
  show ?case by simp
next
  case (Cons y ys)
  then have rest: "ys = filter is_high ys @ filter (\<lambda>t. \<not> is_high t) ys"
    and first: "\<forall>z \<in> set ys. priority_comparator y z \<le> 0"
    by simp_all
  show ?case
  proof (cases "is_high y")
    case True
    with rest show ?thesis by simp
  next
    case False
    with first have "\<forall>z \<in> set ys. \<not> is_high z"
      by (auto simp add: priority_comparator_def is_high_def split: if_splits)
    then have "filter is_high ys = []" and "filter (\<lambda>t. \<not> is_high t) ys = ys"
      by (simp_all add: filter_empty_conv filter_id_conv)
    with False show ?thesis by simp
  qed
qed

lemma sorted_wrt_all_pairs:
  "(\<And>x y. x \<in> set xs \<Longrightarrow> y \<in> set xs \<Longrightarrow> P x y) \<Longrightarrow> sorted_wrt P xs"
  by (induction xs) simp_all

lemma sort_by_priority_sorted:
  "sorted_wrt (\<lambda>a b. priority_comparator a b \<le> 0) (sort_by priority_comparator ts)"
proof -
  have "sorted_wrt (\<lambda>a b. priority_comparator a b \<le> 0) (filter is_high ts)"
    by (rule sorted_wrt_all_pairs) (simp add: priority_comparator_def is_high_def)
  moreover have "sorted_wrt (\<lambda>a b. priority_comparator a b \<le> 0)
                   (filter (\<lambda>t. \<not> is_high t) ts)"
    by (rule sorted_wrt_all_pairs) (simp add: priority_comparator_def is_high_def)
  moreover have "\<forall>a \<in> set (filter is_high ts). \<forall>b \<in> set (filter (\<lambda>t. \<not> is_high t) ts).
                   priority_comparator a b \<le> 0"
    by (simp add: priority_comparator_def is_high_def)
  ultimately show ?thesis
    by (simp add: sort_by_priority_partition sorted_wrt_append)
qed

lemma stable_sort_by_priority_unique:
  assumes "sorted_wrt (\<lambda>a b. priority_comparator a b \<le> 0) ys"
    and "filter is_high ys = filter is_high ts"
    and "filter (\<lambda>t. \<not> is_high t) ys = filter (\<lambda>t. \<not> is_high t) ts"
  shows "ys = sort_by priority_comparator ts"
  using sorted_by_priority_is_partition [OF assms(1)] assms(2,3)
  by (simp add: sort_by_priority_partition)

text \<open>
  Claim C5. In the high-priority mode the view is exactly the tasks with priority high
  that are not completed, in their order in the store. In every mode the view is the
  filtered list with its high-priority tasks first and all others after them, each group
  in its original order: a stable partition. In particular the tasks of any one priority
  keep their order.
\<close>

theorem filteredTodos_high_priority_and_partition:
  "filteredTodos ts high_priority =
     filter (\<lambda>t. priority t = Some high \<and> \<not> isCompleted t) ts \<and>
   filteredTodos ts f =
     filter (\<lambda>t. priority t = Some high) (filter (filtre_predicate f) ts) @
     filter (\<lambda>t. priority t \<noteq> Some high) (filter (filtre_predicate f) ts) \<and>
   filter (\<lambda>t. priority t = p) (filteredTodos ts f) =
     filter (\<lambda>t. priority t = p) (filter (filtre_predicate f) ts)"
proof (intro conjI)
  have "filter (\<lambda>t. \<not> is_high t) (filter (filtre_predicate high_priority) ts) = []"
    by (simp add: filter_empty_conv filtre_predicate_def is_high_def)
  moreover have "filter is_high (filter (filtre_predicate high_priority) ts) =
                 filter (\<lambda>t. priority t = Some high \<and> \<not> isCompleted t) ts"
    by (induction ts) (auto simp add: filtre_predicate_def is_high_def)
  ultimately show "filteredTodos ts high_priority =
     filter (\<lambda>t. priority t = Some high \<and> \<not> isCompleted t) ts"
    by (simp add: filteredTodos_def sort_by_priority_partition)
next
  show "filteredTodos ts f =
     filter (\<lambda>t. priority t = Some high) (filter (filtre_predicate f) ts) @
     filter (\<lambda>t. priority t \<noteq> Some high) (filter (filtre_predicate f) ts)"
    by (simp add: filteredTodos_def sort_by_priority_partition is_high_def)
next
  define xs where "xs = filter (filtre_predicate f) ts"
  have high: "is_high = (\<lambda>t. priority t = Some high)"
    by (simp add: fun_eq_iff is_high_def)
  have "filter (\<lambda>t. priority t = p) (filter is_high xs @ filter (\<lambda>t. \<not> is_high t) xs) =
        filter (\<lambda>t. priority t = p) xs"
  proof (cases "p = Some high")
    case True
    have "filter (\<lambda>t. priority t = p) (filter (\<lambda>t. \<not> is_high t) xs) = []"
      using True by (simp add: filter_empty_conv is_high_def)
    moreover have "filter (\<lambda>t. priority t = p) (filter is_high xs) =
                   filter (\<lambda>t. priority t = p) xs"
      unfolding high using True by simp
    ultimately show ?thesis by simp
  next
    case False
    have "filter (\<lambda>t. priority t = p) (filter is_high xs) = []"
      using False by (auto simp add: filter_empty_conv is_high_def)
    moreover have "filter (\<lambda>t. priority t = p) (filter (\<lambda>t. \<not> is_high t) xs) =
                   filter (\<lambda>t. priority t = p) xs"
      using False by (auto simp add: is_high_def intro: filter_cong)
    ultimately show ?thesis by simp
  qed
  then show "filter (\<lambda>t. priority t = p) (filteredTodos ts f) =
     filter (\<lambda>t. priority t = p) (filter (filtre_predicate f) ts)"
    by (simp add: filteredTodos_def sort_by_priority_partition xs_def)
qed

theorem filteredTodos_high_priority_and_partition_witness:
  "filteredTodos [task1, task2, task3] high_priority = [task3] \<and>
   filteredTodos [task1, task2, task3] tous = [task2, task3, task1] \<and>
   filteredTodos [task1, task2, task3] active = [task3, task1]"
  using filteredTodos_high_priority_and_partition [of "[task1, task2, task3]" tous]
        filteredTodos_high_priority_and_partition [of "[task1, task2, task3]" active]
  by (simp add: filtre_predicate_def task1_def task2_def task3_def)

subsection \<open>The view does not write to the store\<close>

lemma Array_filter_frame:
  "Array_filter p a h = (b, h') \<Longrightarrow>
   b = length (arrays h) \<and> objects h' = objects h \<and> length (arrays h') = Suc (length (arrays h)) \<and>
   (\<forall>c < length (arrays h). arrays h' ! c = arrays h ! c) \<and>
   arrays h' ! b = filter (\<lambda>r. p (objects h ! r)) (arrays h ! a)"
  by (auto simp add: Array_filter_def nth_append)

lemma Array_sort_frame:
  "Array_sort cmp b h = (c, h') \<Longrightarrow>
   c = b \<and> objects h' = objects h \<and> length (arrays h') = length (arrays h) \<and>
   (\<forall>a. a \<noteq> b \<longrightarrow> arrays h' ! a = arrays h ! a)"
  by (auto simp add: Array_sort_def)

lemma map_insert_by:
  "map f (insert_by (\<lambda>x y. cmp (f x) (f y)) r rs) = insert_by cmp (f r) (map f rs)"
  by (induction rs) simp_all

lemma map_sort_by:
  "map f (sort_by (\<lambda>x y. cmp (f x) (f y)) rs) = sort_by cmp (map f rs)"
  by (induction rs) (simp_all add: map_insert_by)

text \<open>
  Claim C10. Computing the view writes only to the array that \<open>filter\<close> allocates: the
  task objects and every array that existed before, the store's array among them, are
  as they were, so the store holds the same tasks with the same fields in the same
  order. The array returned holds the view \<open>filteredTodos\<close> of the store's tasks.
\<close>

theorem filteredTodos_heap_frame:
  assumes "a < length (arrays h)"
  shows "objects (snd (filteredTodos_heap f a h)) = objects h \<and>
         (\<forall>c < length (arrays h). arrays (snd (filteredTodos_heap f a h)) ! c = arrays h ! c) \<and>
         deref (snd (filteredTodos_heap f a h)) a = deref h a \<and>
         fst (filteredTodos_heap f a h) \<noteq> a \<and>
         deref (snd (filteredTodos_heap f a h)) (fst (filteredTodos_heap f a h)) =
           filteredTodos (deref h a) f"
proof -
  define b where "b = length (arrays h)"
  define h1 where "h1 = snd (Array_filter (filtre_predicate f) a h)"
  define h2 where "h2 = snd (Array_sort priority_comparator b h1)"
  have res: "filteredTodos_heap f a h = (b, h2)"
    by (simp add: filteredTodos_heap_def Array_filter_def Array_sort_def b_def h1_def h2_def)
  have obj: "objects h2 = objects h"
    by (simp add: h2_def h1_def Array_sort_def Array_filter_def)
  have old: "\<forall>c < length (arrays h). arrays h2 ! c = arrays h ! c"
    by (simp add: h2_def h1_def Array_sort_def Array_filter_def b_def nth_append)
  have new: "arrays h2 ! b =
      sort_by (\<lambda>r1 r2. priority_comparator (objects h ! r1) (objects h ! r2))
        (filter (\<lambda>r. filtre_predicate f (objects h ! r)) (arrays h ! a))"
    by (simp add: h2_def h1_def Array_sort_def Array_filter_def b_def)
  have view: "deref h2 b = filteredTodos (deref h a) f"
    by (simp add: deref_def obj new filteredTodos_def map_sort_by filter_map o_def)
  from assms have ne: "b \<noteq> a" by (simp add: b_def)
  from assms old have same: "deref h2 a = deref h a"
    by (simp add: deref_def obj)
  from res obj old view ne same show ?thesis by simp
qed

text \<open>
  By contrast, \<open>sort\<close> called on the store's own array would reorder the store: the model
  distinguishes the two.
\<close>

lemma sort_in_place_writes_receiver:
  "arrays (snd (Array_sort priority_comparator 0 heap123)) ! 0 = [1, 2, 0] \<and>
   arrays heap123 ! 0 = [0, 1, 2]"
  by (simp add: Array_sort_def heap123_def priority_comparator_def task1_def task2_def task3_def)

theorem filteredTodos_heap_frame_witness:
  "(0::nat) < length (arrays heap123) \<and>
   filteredTodos_heap tous 0 heap123 =
     (1, \<lparr>objects = [task1, task2, task3], arrays = [[0, 1, 2], [1, 2, 0]]\<rparr>) \<and>
   deref (snd (filteredTodos_heap tous 0 heap123)) 0 = [task1, task2, task3] \<and>
   deref (snd (filteredTodos_heap tous 0 heap123)) 1 = [task2, task3, task1]"
proof -
  have a: "(0::nat) < length (arrays heap123)"
    by (simp add: heap123_def)
  have r: "filteredTodos_heap tous 0 heap123 =
     (1, \<lparr>objects = [task1, task2, task3], arrays = [[0, 1, 2], [1, 2, 0]]\<rparr>)"
    by (simp add: filteredTodos_heap_def Array_filter_def Array_sort_def heap123_def
        filtre_predicate_def priority_comparator_def task1_def task2_def task3_def)
  have d: "deref heap123 0 = [task1, task2, task3]"
    by (simp add: deref_def heap123_def)
  have v: "filteredTodos [task1, task2, task3] tous = [task2, task3, task1]"
    by (simp add: filteredTodos_def filtre_predicate_def priority_comparator_def
        task1_def task2_def task3_def)
  note frame = filteredTodos_heap_frame [OF a, of tous]
  from frame have "deref (snd (filteredTodos_heap tous 0 heap123)) 0 = deref heap123 0"
    by blast
  with d have s0: "deref (snd (filteredTodos_heap tous 0 heap123)) 0 = [task1, task2, task3]"
    by (simp only:)
  have f: "fst (filteredTodos_heap tous 0 heap123) = 1"
    by (simp only: r fst_conv)
  from frame have "deref (snd (filteredTodos_heap tous 0 heap123))
                     (fst (filteredTodos_heap tous 0 heap123)) =
                   filteredTodos (deref heap123 0) tous"
    by blast
  with f d v have s1: "deref (snd (filteredTodos_heap tous 0 heap123)) 1 = [task2, task3, task1]"
    by (simp only:)
  from a r s0 s1 show ?thesis
    by (intro conjI)
qed

section \<open>Properties of the progress text\<close>

lemma two_powi_pos [simp]: "0 < (2::rat) powi k"
  by (simp add: power_int_def)

lemma two_powi_add: "(2::rat) powi (a + b) = 2 powi a * 2 powi b"
  by (simp add: power_int_add)

lemma two_powi_diff: "(2::rat) powi (a - b) = 2 powi a / 2 powi b"
  by (simp add: power_int_diff)

lemma of_int_bitlen_bounds:
  assumes "0 < a"
  shows "(2::rat) powi (bitlen a - 1) \<le> of_int a" and "of_int a < (2::rat) powi bitlen a"
proof -
  from assms have pos: "1 \<le> bitlen a"
    by (auto simp add: bitlen_alt_def)
  from bitlen_bounds [OF assms]
  have lo: "(2::int) ^ nat (bitlen a - 1) \<le> a" and hi: "a < 2 ^ nat (bitlen a)"
    by simp_all
  from lo have "(of_int ((2::int) ^ nat (bitlen a - 1)) :: rat) \<le> of_int a"
    by (simp only: of_int_le_iff)
  then show "(2::rat) powi (bitlen a - 1) \<le> of_int a"
    using pos by (simp add: power_int_def)
  from hi have "(of_int a :: rat) < of_int ((2::int) ^ nat (bitlen a))"
    by (simp only: of_int_less_iff)
  then show "of_int a < (2::rat) powi bitlen a"
    using pos by (simp add: power_int_def)
qed

lemma floor_log2_bounds:
  assumes "0 < x"
  shows "2 powi floor_log2 x \<le> x" and "x < 2 powi (floor_log2 x + 1)"
proof -
  obtain a b where q: "quotient_of x = (a, b)"
    by (cases "quotient_of x")
  then have b: "0 < b" and x: "x = of_int a / of_int b"
    by (simp_all add: quotient_of_denom_pos quotient_of_div)
  from assms b x have a: "0 < a"
    by (simp add: zero_less_divide_iff)
  define d where "d = bitlen a - bitlen b"
  note A = of_int_bitlen_bounds [OF a] and B = of_int_bitlen_bounds [OF b]
  have bpos: "(0::rat) < of_int b" using b by simp
  have upper: "x < 2 powi (d + 1)"
  proof -
    have "x < 2 powi bitlen a / of_int b"
      unfolding x using A(2) bpos by (simp add: divide_strict_right_mono)
    also have "\<dots> \<le> 2 powi bitlen a / 2 powi (bitlen b - 1)"
      using B(1) by (simp add: frac_le)
    also have "\<dots> = 2 powi (d + 1)"
      by (simp add: d_def two_powi_diff [symmetric] algebra_simps)
    finally show ?thesis .
  qed
  have lower: "2 powi (d - 1) \<le> x"
  proof -
    have "(2::rat) powi (d - 1) = 2 powi (bitlen a - 1) / 2 powi bitlen b"
      by (simp add: d_def two_powi_diff [symmetric] algebra_simps)
    also have "\<dots> \<le> of_int a / 2 powi bitlen b"
      using A(1) by (simp add: divide_right_mono)
    also have "\<dots> \<le> of_int a / of_int b"
      using B(2) a bpos by (simp add: frac_le)
    finally show ?thesis by (simp add: x)
  qed
  have fl: "floor_log2 x = (if 2 powi d \<le> x then d else d - 1)"
    by (simp add: floor_log2_def q d_def Let_def)
  show "2 powi floor_log2 x \<le> x"
    using lower by (simp add: fl)
  show "x < 2 powi (floor_log2 x + 1)"
    using upper by (auto simp add: fl not_le)
qed

lemma round_half_even_error: "\<bar>of_int (round_half_even y) - y\<bar> \<le> 1 / 2"
proof -
  have "of_int \<lfloor>y\<rfloor> \<le> y" "y < of_int \<lfloor>y\<rfloor> + 1"
    by linarith+
  then show ?thesis
    by (auto simp add: round_half_even_def Let_def abs_le_iff)
qed

lemma binary64_error:
  assumes "0 < x"
  shows "\<bar>binary64 x - x\<bar> \<le> x / 2 ^ 53"
proof -
  define k where "k = floor_log2 x"
  define e where "e = k - 52"
  define y where "y = x * 2 powi (- e)"
  have b: "binary64 x = of_int (round_half_even y) * 2 powi e"
    using assms by (simp add: binary64_def Let_def k_def e_def y_def)
  have xy: "x = y * 2 powi e"
    by (simp add: y_def power_int_minus field_simps)
  have "binary64 x - x = (of_int (round_half_even y) - y) * 2 powi e"
    unfolding b by (subst xy) (simp add: left_diff_distrib)
  then have "\<bar>binary64 x - x\<bar> = \<bar>of_int (round_half_even y) - y\<bar> * 2 powi e"
    by (simp add: abs_mult)
  also have "\<dots> \<le> 1 / 2 * 2 powi e"
    by (intro mult_right_mono round_half_even_error) simp
  also have "\<dots> = 2 powi k / 2 ^ 53"
    by (simp add: e_def two_powi_diff)
  also have "\<dots> \<le> x / 2 ^ 53"
    using floor_log2_bounds(1) [OF assms] by (simp add: k_def divide_right_mono)
  finally show ?thesis .
qed

lemma binary64_zero [simp]: "binary64 0 = 0"
  by (simp add: binary64_def)

lemma double_error:
  assumes "c \<le> n" "0 < n"
  shows "\<bar>binary64 (binary64 (of_nat c / of_nat n) * 100) - 100 * of_nat c / of_nat n\<bar>
           \<le> 201 / 2 ^ 53"
proof (cases "c = 0")
  case True
  then show ?thesis by simp
next
  case False
  define x :: rat where "x = of_nat c / of_nat n"
  define q where "q = binary64 x"
  from False assms have x: "0 < x" "x \<le> 1"
    by (simp_all add: x_def)
  have e1: "\<bar>q - x\<bar> \<le> x / 2 ^ 53"
    unfolding q_def by (rule binary64_error [OF x(1)])
  have "x / 2 ^ 53 < x" using x(1) by simp
  with e1 have q: "0 < q" by linarith
  have small: "x / 2 ^ 53 \<le> 1 / 2 ^ 53"
    using x(2) by (simp add: divide_right_mono)
  from e1 small x(2) have qle: "q \<le> 1 + 1 / 2 ^ 53"
    by linarith
  have e2: "\<bar>binary64 (q * 100) - q * 100\<bar> \<le> q * 100 / 2 ^ 53"
    using q by (intro binary64_error) simp
  from e1 small have e1': "\<bar>q - x\<bar> \<le> 1 / 2 ^ 53"
    by linarith
  have bound: "q * 100 / 2 ^ 53 \<le> (1 + 1 / 2 ^ 53) * 100 / 2 ^ 53"
    using qle by (simp add: divide_right_mono)
  define z where "z = binary64 (q * 100)"
  from e2 bound have z: "z - q * 100 \<le> (1 + 1 / 2 ^ 53) * 100 / 2 ^ 53"
    "q * 100 - z \<le> (1 + 1 / 2 ^ 53) * 100 / 2 ^ 53"
    unfolding z_def by linarith+
  from e1' have d: "q - x \<le> 1 / 2 ^ 53" "x - q \<le> 1 / 2 ^ 53"
    by linarith+
  have "(1 + 1 / 2 ^ 53) * 100 / 2 ^ 53 + 100 * (1 / 2 ^ 53) \<le> (201::rat) / 2 ^ 53"
    by simp
  with z d have "z - 100 * x \<le> 201 / 2 ^ 53" "100 * x - z \<le> 201 / 2 ^ 53"
    by linarith+
  then have "\<bar>z - 100 * x\<bar> \<le> 201 / 2 ^ 53"
    by (intro abs_leI) linarith+
  then show ?thesis
    by (simp add: z_def q_def x_def)
qed


lemma round_percent:
  assumes "c \<le> n" "0 < n" "n < 2 ^ 32"
  defines "p \<equiv> \<lfloor>binary64 (binary64 (of_nat c / of_nat n) * 100) + 1 / 2\<rfloor>"
  shows "\<bar>2 * p * int n - 200 * int c\<bar> \<le> int n" and "0 \<le> p"
proof -
  define z where "z = binary64 (binary64 (of_nat c / of_nat n) * 100)"
  define N :: rat where "N = of_nat n"
  define C :: rat where "C = of_nat c"
  have N: "0 < N" "N < 2 ^ 32"
    using assms(2,3) unfolding N_def
    by simp (metis of_nat_less_iff of_nat_numeral of_nat_power assms(3))
  have err: "\<bar>z - 100 * C / N\<bar> \<le> 201 / 2 ^ 53"
    unfolding z_def C_def N_def by (rule double_error [OF assms(1,2)])
  have p: "of_int p \<le> z + 1 / 2" "z + 1 / 2 < of_int p + 1"
    unfolding p_def z_def by linarith+
  have rN: "100 * C / N * N = 100 * C"
    using N(1) by simp
  have dN: "201 / 2 ^ 53 * (2 * N) < 1"
  proof -
    have "201 / 2 ^ 53 * (2 * N) < 201 / 2 ^ 53 * (2 * 2 ^ 32)"
      using N(2) by (intro mult_strict_left_mono) simp_all
    also have "\<dots> < (1::rat)" by simp
    finally show ?thesis .
  qed
  have up: "of_int p * (2 * N) < 200 * C + N + 1"
  proof -
    from p(1) err have "of_int p \<le> 100 * C / N + 1 / 2 + 201 / 2 ^ 53"
      by linarith
    then have "of_int p * (2 * N) \<le> (100 * C / N + 1 / 2 + 201 / 2 ^ 53) * (2 * N)"
      using N(1) by (intro mult_right_mono) simp_all
    also have "\<dots> = 2 * (100 * C / N * N) + N + 201 / 2 ^ 53 * (2 * N)"
      by (simp add: distrib_right)
    also have "\<dots> = 200 * C + N + 201 / 2 ^ 53 * (2 * N)"
      by (simp only: rN)
    also have "\<dots> < 200 * C + N + 1"
      using dN by linarith
    finally show ?thesis .
  qed
  have lo: "200 * C - N - 1 < of_int p * (2 * N)"
  proof -
    from p(2) err have "100 * C / N - 1 / 2 - 201 / 2 ^ 53 < of_int p"
      by linarith
    then have "(100 * C / N - 1 / 2 - 201 / 2 ^ 53) * (2 * N) < of_int p * (2 * N)"
      using N(1) by (intro mult_strict_right_mono) simp_all
    moreover have "(100 * C / N - 1 / 2 - 201 / 2 ^ 53) * (2 * N)
                   = 2 * (100 * C / N * N) - N - 201 / 2 ^ 53 * (2 * N)"
      by (simp add: left_diff_distrib)
    moreover have "\<dots> = 200 * C - N - 201 / 2 ^ 53 * (2 * N)"
      by (simp only: rN)
    ultimately show ?thesis using dN by linarith
  qed
  have "(of_int (2 * p * int n) :: rat) < of_int (200 * int c + int n + 1)"
    using up by (simp add: N_def C_def algebra_simps)
  then have up': "2 * p * int n < 200 * int c + int n + 1"
    by (simp only: of_int_less_iff)
  have "(of_int (200 * int c - int n - 1) :: rat) < of_int (2 * p * int n)"
    using lo by (simp add: N_def C_def algebra_simps)
  then have lo': "200 * int c - int n - 1 < 2 * p * int n"
    by (simp only: of_int_less_iff)
  from up' lo' show near: "\<bar>2 * p * int n - 200 * int c\<bar> \<le> int n"
    by linarith
  show "0 \<le> p"
  proof (rule ccontr)
    assume "\<not> 0 \<le> p"
    then have "p \<le> - 1" by simp
    then have "p * int n \<le> (- 1) * int n"
      by (intro mult_right_mono) simp_all
    moreover have "2 * p * int n = 2 * (p * int n)"
      by simp
    ultimately show False
      using lo' assms(2) by linarith
  qed
qed

lemma binary64_1: "binary64 1 = 1"
  by code_simp

lemma binary64_100: "binary64 100 = 100"
  by code_simp

lemma floor_201_half: "\<lfloor>(201::rat) / 2\<rfloor> = 100"
  by (rule floor_unique) simp_all

lemma decimal_100: "decimal 100 = utf16 ''100''"
  by code_simp

lemma completedTasks_le: "completedTasks ts \<le> length ts"
  by (simp add: completedTasks_def)

lemma completedTasks_all:
  "\<forall>t \<in> set ts. isCompleted t \<Longrightarrow> completedTasks ts = length ts"
  by (simp add: completedTasks_def remainingTasks_def filter_empty_conv[THEN iffD2])

lemma calculerProgress_nonempty:
  assumes "ts \<noteq> []"
  shows "calculerProgress ts =
     toString (Integer \<lfloor>binary64 (binary64 (of_nat (completedTasks ts) / of_nat (length ts)) * 100)
                         + 1 / 2\<rfloor>) @ utf16 ''%''"
  using assms by (simp add: calculerProgress_def js_div_def)

text \<open>
  Claim C4. The progress text is \<open>0%\<close> for the empty list and \<open>100%\<close> for a list that is
  not empty and whose tasks are all completed. For a list that is not empty (an array has
  fewer than \<open>2 ^ 32\<close> elements) it is the decimal text of an integer \<open>p\<close> between 0 and
  100 that is nearest to the exact percentage: \<open>p\<close> differs from
  \<open>100 * completed / total\<close> by at most one half.
\<close>

theorem calculerProgress_rounds_to_nearest:
  "calculerProgress [] = utf16 ''0%'' \<and>
   (ts \<noteq> [] \<and> (\<forall>t \<in> set ts. isCompleted t) \<longrightarrow> calculerProgress ts = utf16 ''100%'') \<and>
   (ts \<noteq> [] \<and> length ts < 2 ^ 32 \<longrightarrow>
      (\<exists>p. calculerProgress ts = decimal p @ utf16 ''%'' \<and> p \<le> 100 \<and>
           \<bar>2 * int p * int (length ts) - 200 * int (completedTasks ts)\<bar> \<le> int (length ts)))"
proof (intro conjI impI)
  show "calculerProgress [] = utf16 ''0%''"
    by (simp add: calculerProgress_def)
next
  assume a: "ts \<noteq> [] \<and> (\<forall>t \<in> set ts. isCompleted t)"
  then have "completedTasks ts = length ts" and "length ts \<noteq> 0"
    by (simp_all add: completedTasks_all)
  then show "calculerProgress ts = utf16 ''100%''"
    using a by (simp add: calculerProgress_nonempty binary64_1 binary64_100 floor_201_half
                  decimal_100)
               (simp add: utf16_def)
next
  assume a: "ts \<noteq> [] \<and> length ts < 2 ^ 32"
  define n where "n = length ts"
  define c where "c = completedTasks ts"
  define q where "q = \<lfloor>binary64 (binary64 (of_nat c / of_nat n) * 100) + 1 / 2\<rfloor>"
  from a have n: "0 < n" "n < 2 ^ 32" by (simp_all add: n_def)
  have c: "c \<le> n" by (simp add: c_def n_def completedTasks_le)
  from round_percent [OF c n] have near: "\<bar>2 * q * int n - 200 * int c\<bar> \<le> int n"
    and pos: "0 \<le> q"
    by (simp_all add: q_def)
  have q100: "q \<le> 100"
  proof (rule ccontr)
    assume "\<not> q \<le> 100"
    then have "101 \<le> q" by simp
    then have "101 * int n \<le> q * int n"
      by (intro mult_right_mono) simp_all
    moreover have "2 * q * int n = 2 * (q * int n)" by simp
    ultimately show False using near c n(1) by linarith
  qed
  have "calculerProgress ts = decimal (nat q) @ utf16 ''%''"
    using a pos by (simp add: calculerProgress_nonempty q_def c_def n_def)
  moreover have "nat q \<le> 100" using q100 by simp
  moreover have "\<bar>2 * int (nat q) * int n - 200 * int c\<bar> \<le> int n"
    using near pos by simp
  ultimately show "\<exists>p. calculerProgress ts = decimal p @ utf16 ''%'' \<and> p \<le> 100 \<and>
           \<bar>2 * int p * int (length ts) - 200 * int (completedTasks ts)\<bar> \<le> int (length ts)"
    unfolding n_def c_def by blast
qed

lemma progress_23_of_40: "calculerProgress tasks40 = utf16 ''57%''"
  by code_simp

theorem calculerProgress_rounds_to_nearest_witness:
  "[task1, task2] \<noteq> [] \<and> length [task1, task2] < (2::nat) ^ 32 \<and>
   calculerProgress [task1, task2] = utf16 ''50%'' \<and>
   [task2, task2] \<noteq> [] \<and> isCompleted task2 \<and>
   calculerProgress [task2, task2] = utf16 ''100%''"
proof -
  have all: "[task2, task2] \<noteq> [] \<and> (\<forall>t \<in> set [task2, task2]. isCompleted t)"
    by (simp add: task2_def)
  have ne: "[task1, task2] \<noteq> [] \<and> length [task1, task2] < (2::nat) ^ 32"
    by simp
  have c: "completedTasks [task1, task2] = 1"
    by (simp add: completedTasks_def remainingTasks_def task1_def task2_def)
  from calculerProgress_rounds_to_nearest [of "[task1, task2]"] ne c
  obtain p where p: "calculerProgress [task1, task2] = decimal p @ utf16 ''%''"
    and near: "\<bar>2 * int p * 2 - 200\<bar> \<le> (2::int)"
    by auto
  from near have "p = 50" by linarith
  with p have half: "calculerProgress [task1, task2] = utf16 ''50%''"
    by (simp add: decimal.simps utf16_def)
  from calculerProgress_rounds_to_nearest [of "[task2, task2]"] all
  have "calculerProgress [task2, task2] = utf16 ''100%''"
    by blast
  with half all show ?thesis by simp
qed


section \<open>Properties of the remote loader\<close>

lemma fetchTodos_settle_failure:
  "fetchTodos_settle props clock (Inl err) s =
     Inr (s\<lparr>error := utf16 ''Erreur lors du chargement'', isLoading := False\<rparr>)"
  by (simp add: fetchTodos_settle_def try_block_def catch_block_def finally_block_def)

lemma fetchTodos_settle_success:
  "fetchTodos_settle props clock (Inr data) s =
     Inr (s\<lparr>todos := initialTasks props @ apiTasks clock data, isLoading := False\<rparr>)"
  by (simp add: fetchTodos_settle_def try_block_def finally_block_def)










text \<open>
  On success the new list is \<open>initialTasks\<close> followed by the mapped records, whatever the
  store holds at that moment (\<open>fetchTodos_settle_success\<close>).

  Claim C2. The merge is not additive: with no initial tasks and a store that holds
  \<open>task1\<close> when the request settles with one record, the store afterwards holds the
  mapped record only.
\<close>

theorem fetchTodos_settle_overwrites_store:
  "initialTasks default_props = [] \<and> todos pending1 = [task1] \<and>
   fetchTodos_settle default_props (\<lambda>i. 5000) (Inr [record1]) pending1 =
     Inr (pending1\<lparr>todos := [\<lparr>task_id = 1, titre = utf16 ''delectus aut autem'',
                                 isCompleted = False, userId = Some 1, createdAt = Some 5000,
                                 priority = Some high\<rparr>],
                    isLoading := False\<rparr>)"
  by (simp add: fetchTodos_settle_success default_props_def pending1_def apiTasks_def
      apiTask_def record1_def priority_of_index_def)

lemma length_apiTasks [simp]: "length (apiTasks clock data) = length data"
  by (simp add: apiTasks_def)

lemma nth_apiTasks:
  "i < length data \<Longrightarrow> apiTasks clock data ! i = apiTask clock (data ! i) i"
  by (simp add: apiTasks_def)

lemma map_task_id_apiTasks: "map task_id (apiTasks clock data) = map api_id data"
  by (rule nth_equalityI) (simp_all add: nth_apiTasks apiTask_def)

lemma map_priority_apiTasks:
  "map priority (apiTasks clock data) = map (\<lambda>i. Some (priority_of_index i)) [0..<length data]"
  by (rule nth_equalityI) (simp_all add: nth_apiTasks apiTask_def)

text \<open>
  Claim C8. The mapped tasks get the priority of their position whatever \<open>enablePriority\<close>
  is (\<open>map_priority_apiTasks\<close>): with the flag off, two fetched records are given the
  priorities high and low.
\<close>

theorem fetchTodos_settle_assigns_priority_when_disabled:
  "enablePriority default_props = False \<and>
   (case fetchTodos_settle default_props (\<lambda>i. 5000) (Inr [record1, record2]) pending1 of
      Inl err \<Rightarrow> [] | Inr s' \<Rightarrow> map priority (todos s')) = [Some high, Some low]"
  by (simp add: fetchTodos_settle_success default_props_def apiTasks_def
      apiTask_def priority_of_index_def)

section \<open>Identifiers\<close>

lemma ids_ajouterTodo:
  "ids (ajouterTodo props now created updated s) = ids s \<or>
   ids (ajouterTodo props now created updated s) = ids s @ [now]"
  by (simp add: ajouterTodo_def ids_def Let_def)

lemma ids_toggleTask: "ids (toggleTask i s) = ids s"
  by (simp add: toggleTask_def ids_def o_def if_distrib cong: if_cong)

lemma ids_marquerToutCompleted: "ids (marquerToutCompleted s) = ids s"
  by (simp add: marquerToutCompleted_def ids_def o_def)

lemma distinct_ids_supprimerTask:
  "distinct (ids s) \<Longrightarrow> distinct (ids (supprimerTask toNumber i s))"
  by (simp add: supprimerTask_def ids_def distinct_map_filter)

lemma distinct_ids_clearCompletedTodos:
  "distinct (ids s) \<Longrightarrow> distinct (ids (clearCompletedTodos s))"
  by (simp add: clearCompletedTodos_def ids_def distinct_map_filter)

lemma ids_settle:
  "ids (step props toNumber s (Settle clock (Inr data))) =
     map task_id (initialTasks props) @ map api_id data"
  by (simp add: fetchTodos_settle_success ids_def map_task_id_apiTasks)

lemma ids_settle_failure: "ids (step props toNumber s (Settle clock (Inl err))) = ids s"
  by (simp add: fetchTodos_settle_failure ids_def)

lemma distinct_ids_step:
  assumes "distinct (ids s)" and "fresh_event props s ev"
  shows "distinct (ids (step props toNumber s ev))"
proof (cases ev)
  case (Add now created updated)
  with assms ids_ajouterTodo [of props now created updated s] show ?thesis
    by auto
next
  case (Settle clock outcome)
  with assms show ?thesis
    by (cases outcome) (simp_all only: ids_settle ids_settle_failure fresh_event.simps)
qed (use assms in \<open>simp_all add: ids_toggleTask ids_marquerToutCompleted
       distinct_ids_supprimerTask distinct_ids_clearCompletedTodos\<close>,
     simp_all add: ids_def)

lemma distinct_ids_run:
  "distinct (ids s) \<Longrightarrow> fresh_events props toNumber s evs \<Longrightarrow>
   distinct (ids (run props toNumber s evs))"
  unfolding run_def
  by (induction evs arbitrary: s) (simp_all add: distinct_ids_step)

lemma ids_mounted: "ids (mounted props now) = map task_id (initialTasks props)"
  by (simp add: mounted_def useEffect_def initial_state_def fetchTodos_start_def ids_def)

text \<open>
  Claim C9, as amended. From initial tasks with pairwise distinct ids, every state the
  component reaches has pairwise distinct ids, provided that each \<open>Add\<close> reads a clock
  value that is the id of no task of the store and that a settled request brings records
  whose ids differ from each other and from the ids of the initial tasks.
\<close>

theorem ids_distinct_while_fresh:
  assumes "distinct (map task_id (initialTasks props))"
    and "fresh_events props toNumber (mounted props now) evs"
  shows "distinct (ids (run props toNumber (mounted props now) evs))"
  using assms by (intro distinct_ids_run) (simp_all add: ids_mounted)

text \<open>
  The claim as stated fails: initial tasks that share an id are taken as they are, and
  two tasks added at the same clock value share their id.
\<close>

theorem ids_not_always_distinct:
  "\<not> distinct (ids (mounted props_dup 0)) \<and>
   distinct (ids (mounted props1 0)) \<and>
   \<not> distinct (ids (run props1 (\<lambda>str. None) (mounted props1 0)
                     [Type (utf16 ''a''), Add 1700 1700 1700,
                      Type (utf16 ''b''), Add 1700 1700 1700]))"
  by (simp add: ids_mounted props_dup_def props1_def run_def ajouterTodo_def mounted_def
      useEffect_def initial_state_def ids_def trim_def utf16_def js_whitespace_def)

theorem ids_distinct_while_fresh_witness:
  "distinct (map task_id (initialTasks props1)) \<and>
   fresh_events props1 (\<lambda>str. None) (mounted props1 0)
     [Type (utf16 ''a''), Add 1700 1700 1700, Toggle 1, Type (utf16 ''b''),
      Add 1701 1701 1701, Remove (Num 1), CompleteAll, ClearCompleted] \<and>
   ids (run props1 (\<lambda>str. None) (mounted props1 0)
     [Type (utf16 ''a''), Add 1700 1700 1700, Toggle 1, Type (utf16 ''b''),
      Add 1701 1701 1701, Remove (Num 1)]) = [1700, 1701] \<and>
   distinct (ids (run props1 (\<lambda>str. None) (mounted props1 0)
     [Type (utf16 ''a''), Add 1700 1700 1700, Toggle 1, Type (utf16 ''b''),
      Add 1701 1701 1701, Remove (Num 1), CompleteAll, ClearCompleted]))"
proof -
  have d: "distinct (map task_id (initialTasks props1))"
    by (simp add: props1_def)
  have f: "fresh_events props1 (\<lambda>str. None) (mounted props1 0)
     [Type (utf16 ''a''), Add 1700 1700 1700, Toggle 1, Type (utf16 ''b''),
      Add 1701 1701 1701, Remove (Num 1), CompleteAll, ClearCompleted]"
    by (simp add: props1_def mounted_def useEffect_def initial_state_def ids_def
        ajouterTodo_def toggleTask_def supprimerTask_def trim_def utf16_def js_whitespace_def
        task1_def)
  have r: "ids (run props1 (\<lambda>str. None) (mounted props1 0)
     [Type (utf16 ''a''), Add 1700 1700 1700, Toggle 1, Type (utf16 ''b''),
      Add 1701 1701 1701, Remove (Num 1)]) = [1700, 1701]"
    by (simp add: run_def props1_def mounted_def useEffect_def initial_state_def ids_def
        ajouterTodo_def toggleTask_def supprimerTask_def trim_def utf16_def js_whitespace_def
        task1_def)
  from ids_distinct_while_fresh [OF d f] d f r show ?thesis
    by (intro conjI)
qed

section \<open>The earlier version\<close>

text \<open>
  What the functions of the earlier version do where they differ from the later ones:
  the progress text of the empty list is \<open>NaN%\<close>, an add is not limited, a failed request
  leaves the effect as a rejected promise with the loading flag still set, a request
  that succeeds replaces the list, and a removal by a number is the later one while a
  removal by a string removes nothing.
\<close>

lemma calculerProgress_v1_empty: "calculerProgress_v1 [] = utf16 ''NaN%''"
  by (simp add: calculerProgress_v1_def js_div_def remainingTasks_def utf16_def)

lemma calculerProgress_v1_nonempty:
  "ts \<noteq> [] \<Longrightarrow> calculerProgress_v1 ts = calculerProgress ts"
  by (simp add: calculerProgress_v1_def calculerProgress_def completedTasks_def)

lemma ajouterTodo_v1_has_no_limit:
  "trim (inputValue s) \<noteq> [] \<Longrightarrow> length (todos (ajouterTodo_v1 now s)) = length (todos s) + 1"
  by (simp add: ajouterTodo_v1_def Let_def)

lemma useEffect_settle_v1_failure:
  "useEffect_settle_v1 (Inl err) (useEffect_start_v1 s) = Inl err \<and>
   isLoading (useEffect_start_v1 s) = True"
  by (simp add: useEffect_settle_v1_def useEffect_start_v1_def)

lemma useEffect_settle_v1_replaces:
  "useEffect_settle_v1 (Inr data) s = Inr s' \<Longrightarrow> todos s' = map apiTask_v1 data"
  by (auto simp add: useEffect_settle_v1_def)

lemma supprimerTask_v1_idempotent:
  "supprimerTask_v1 i (supprimerTask_v1 i s) = supprimerTask_v1 i s"
  by (simp add: supprimerTask_v1_def)

lemma supprimerTask_v1_Num: "supprimerTask_v1 (Num n) s = supprimerTask toNumber (Num n) s"
  by (simp add: supprimerTask_v1_def supprimerTask_def strict_eq_def)

lemma supprimerTask_v1_Str: "supprimerTask_v1 (Str str) s = s"
  by (simp add: supprimerTask_v1_def strict_eq_def)

end
